theory Spec2Isabelle
  imports Main
begin

section \<open>The calendar initializer of static/agenda.js\<close>

text \<open>
  The repository is one script: a \<^verbatim>\<open>DOMContentLoaded\<close> handler that looks up two
  elements of the page, parses the text of one of them as JSON, and hands the result,
  inside a fixed options object, to the constructor of the FullCalendar library, whose
  \<^verbatim>\<open>render\<close> method it then calls.

  The handler is embedded as it is written. What it reads (the page, \<^verbatim>\<open>JSON.parse\<close>,
  the library) is an argument of the model; what it does (console output, the call of
  the constructor, the call of \<^verbatim>\<open>render\<close>) is recorded, in order, in a list of effects;
  a thrown exception is a value of the result.
\<close>

subsection \<open>Values\<close>

text \<open>
  What \<^verbatim>\<open>JSON.parse\<close> returns: a tree of arrays and objects over the JSON scalars.
  A number and a string keep their spelling in the text, and an object keeps its members
  as written: the IEEE double a numeral denotes, the decoding of escapes and the merging
  of repeated keys are not modelled. The tree is therefore finer than the JavaScript
  value; the handler never looks inside a parsed value, and no statement below depends
  on the difference. A character stands for one code unit of a JavaScript string (the
  code units below 256; the handler never looks inside a string either).
\<close>

datatype jsval =
    JNull
  | JBool bool
  | JNum string
  | JStr string
  | JArr "jsval list"
  | JObj "(string \<times> jsval) list"

text \<open>
  An exception is identified by its class (\<open>Other\<close> names any further class); its message
  is implementation-defined.
\<close>

datatype js_error = SyntaxError | TypeError | ReferenceError | RangeError | Other string

subsection \<open>The page\<close>

record element =
  textContent :: string

type_synonym document = "string \<Rightarrow> element option"

definition getElementById :: "document \<Rightarrow> string \<Rightarrow> element option" where
  "getElementById doc ident = doc ident"

subsection \<open>The options object of the calendar\<close>

record toolbar =
  left :: string
  center :: string
  right :: string

record time_format =
  hour :: string
  minute :: string
  hour12 :: bool

text \<open>The field \<^verbatim>\<open>locale\<close> of the source is \<open>locale'\<close> here (the bare word is reserved).\<close>

record options =
  initialView :: string
  headerToolbar :: toolbar
  events :: jsval
  eventDisplay :: string
  eventTimeFormat :: time_format
  locale' :: string
  height :: string
  allDaySlot :: bool
  slotMinTime :: string
  slotMaxTime :: string

text \<open>A calendar object, as the handler knows it: what its constructor was given.\<close>

record calendar =
  el :: "element option"
  opts :: options

subsection \<open>Effects\<close>

datatype console_arg = Str string | Val jsval | Err js_error

datatype effect =
    Console_error "console_arg list"
  | Console_log "console_arg list"
  | New_Calendar "element option" options
  | Render calendar

text \<open>
  The host: the built-in \<^verbatim>\<open>JSON.parse\<close> and the two entry points of the library the
  script calls, \<^verbatim>\<open>new FullCalendar.Calendar(el, options)\<close> and \<^verbatim>\<open>calendar.render()\<close>.
  \<open>Inl\<close> is a thrown exception; for the library, \<open>None\<close> is a normal return. The
  library is not part of the repository, so its behaviour is left open: either call may
  throw.
\<close>

record host =
  JSON_parse :: "string \<Rightarrow> js_error + jsval"
  Calendar_constructor :: "element option \<Rightarrow> options \<Rightarrow> js_error option"
  Calendar_render :: "calendar \<Rightarrow> js_error option"

text \<open>
  A statement of the script: from the effects so far to an exception or a value, and
  the effects after it.
\<close>

type_synonym 'a js = "effect list \<Rightarrow> (js_error + 'a) \<times> effect list"

definition return_js :: "'a \<Rightarrow> 'a js" where
  "return_js x = (\<lambda>s. (Inr x, s))"

definition throw :: "js_error \<Rightarrow> 'a js" where
  "throw e = (\<lambda>s. (Inl e, s))"

definition seq :: "'a js \<Rightarrow> ('a \<Rightarrow> 'b js) \<Rightarrow> 'b js" where
  "seq m f = (\<lambda>s. case m s of (Inl e, s') \<Rightarrow> (Inl e, s') | (Inr x, s') \<Rightarrow> f x s')"

definition try_catch :: "'a js \<Rightarrow> (js_error \<Rightarrow> 'a js) \<Rightarrow> 'a js" where
  "try_catch body catch =
     (\<lambda>s. case body s of (Inl e, s') \<Rightarrow> catch e s' | (Inr x, s') \<Rightarrow> (Inr x, s'))"

definition emit :: "effect \<Rightarrow> unit js" where
  "emit ef = (\<lambda>s. (Inr (), s @ [ef]))"

definition console_error :: "console_arg list \<Rightarrow> unit js" where
  "console_error args = emit (Console_error args)"

definition console_log :: "console_arg list \<Rightarrow> unit js" where
  "console_log args = emit (Console_log args)"

definition call_JSON_parse :: "host \<Rightarrow> string \<Rightarrow> jsval js" where
  "call_JSON_parse h txt = (case JSON_parse h txt of Inl e \<Rightarrow> throw e | Inr v \<Rightarrow> return_js v)"

definition new_Calendar :: "host \<Rightarrow> element option \<Rightarrow> options \<Rightarrow> calendar js" where
  "new_Calendar h mount cfg =
     seq (emit (New_Calendar mount cfg)) (\<lambda>_.
       case Calendar_constructor h mount cfg of
         Some e \<Rightarrow> throw e
       | None \<Rightarrow> return_js \<lparr>el = mount, opts = cfg\<rparr>)"

definition render :: "host \<Rightarrow> calendar \<Rightarrow> unit js" where
  "render h cal =
     seq (emit (Render cal)) (\<lambda>_.
       case Calendar_render h cal of Some e \<Rightarrow> throw e | None \<Rightarrow> return_js ())"

subsection \<open>The handler\<close>

text \<open>The three messages; \<open>CHR 0xC9\<close> and \<open>CHR 0xE9\<close> are the accented E and e.\<close>

definition msg_missing :: string where
  "msg_missing = [CHR 0xC9] @ ''l'' @ [CHR 0xE9] @ ''ments events-data introuvable !''"

definition msg_loaded :: string where
  "msg_loaded = [CHR 0xC9] @ ''v'' @ [CHR 0xE9] @ ''nements charg'' @ [CHR 0xE9] @ ''s :''"

definition msg_parse_error :: string where
  "msg_parse_error =
     ''Erreur lors de l'' @ [CHR 0x27] @ ''analyse des '' @ [CHR 0xE9] @ ''v'' @ [CHR 0xE9] @ ''nements :''"

text \<open>
  Lines 11 to 17: \<^verbatim>\<open>let events = []; try { events = JSON.parse(...); console.log(...) }
  catch (e) { console.error(..., e) }\<close>. The value of the statement is the value of the
  variable \<^verbatim>\<open>events\<close> after it: the parsed value when the assignment was reached, the
  initial empty array when \<^verbatim>\<open>JSON.parse\<close> threw before it.
\<close>

definition load_events :: "host \<Rightarrow> element \<Rightarrow> jsval js" where
  "load_events h eventsData =
     try_catch
       (seq (call_JSON_parse h (textContent eventsData)) (\<lambda>events.
        seq (console_log [Str msg_loaded, Val events]) (\<lambda>_.
        return_js events)))
       (\<lambda>e. seq (console_error [Str msg_parse_error, Err e]) (\<lambda>_.
        return_js (JArr [])))"

text \<open>Lines 19 to 38: the object literal, with the variable \<^verbatim>\<open>events\<close> in it.\<close>

definition calendar_options :: "jsval \<Rightarrow> options" where
  "calendar_options evts =
     \<lparr> initialView = ''timeGridWeek'',
       headerToolbar =
         \<lparr> left = ''prev,next today'',
           center = ''title'',
           right = ''dayGridMonth,timeGridWeek,timeGridDay,listWeek'' \<rparr>,
       events = evts,
       eventDisplay = ''block'',
       eventTimeFormat = \<lparr> hour = ''2-digit'', minute = ''2-digit'', hour12 = False \<rparr>,
       locale' = ''fr'',
       height = ''auto'',
       allDaySlot = False,
       slotMinTime = ''07:00:00'',
       slotMaxTime = ''20:00:00'' \<rparr>"

definition handler :: "host \<Rightarrow> document \<Rightarrow> unit js" where
  "handler h doc =
     (let calendarEl = getElementById doc ''calendar'';
          eventsData = getElementById doc ''events-data''
      in case eventsData of
           None \<Rightarrow> console_error [Str msg_missing]
         | Some data \<Rightarrow>
             seq (load_events h data) (\<lambda>events.
             seq (new_Calendar h calendarEl (calendar_options events)) (\<lambda>calendar.
             render h calendar)))"

text \<open>One page load: the handler runs once, from no effects.\<close>

definition run :: "host \<Rightarrow> document \<Rightarrow> (js_error + unit) \<times> effect list" where
  "run h doc = handler h doc []"

definition outcome :: "host \<Rightarrow> document \<Rightarrow> js_error + unit" where
  "outcome h doc = fst (run h doc)"

definition trace :: "host \<Rightarrow> document \<Rightarrow> effect list" where
  "trace h doc = snd (run h doc)"

text \<open>What a run did, read off its effects.\<close>

fun constructed :: "effect list \<Rightarrow> (element option \<times> options) list" where
  "constructed [] = []"
| "constructed (New_Calendar mount cfg # tr) = (mount, cfg) # constructed tr"
| "constructed (_ # tr) = constructed tr"

fun rendered :: "effect list \<Rightarrow> calendar list" where
  "rendered [] = []"
| "rendered (Render cal # tr) = cal # rendered tr"
| "rendered (_ # tr) = rendered tr"

fun console :: "effect list \<Rightarrow> effect list" where
  "console [] = []"
| "console (Console_error args # tr) = Console_error args # console tr"
| "console (Console_log args # tr) = Console_log args # console tr"
| "console (_ # tr) = console tr"

text \<open>The diagnostics: what was written with \<^verbatim>\<open>console.error\<close>.\<close>

fun diagnostics :: "effect list \<Rightarrow> console_arg list list" where
  "diagnostics [] = []"
| "diagnostics (Console_error args # tr) = args # diagnostics tr"
| "diagnostics (_ # tr) = diagnostics tr"

fun is_array :: "jsval \<Rightarrow> bool" where
  "is_array (JArr _) = True"
| "is_array _ = False"

section \<open>A host to run the handler on\<close>

text \<open>
  The theorems below hold for every host. To run the handler on a concrete page, this
  section gives one: \<^verbatim>\<open>JSON.parse\<close> as the JSON grammar defines it (ECMA-404, which
  ECMAScript's \<^verbatim>\<open>JSON.parse\<close> follows), and a library that records its calls and
  returns.
\<close>

subsection \<open>JSON.parse\<close>

definition is_ws :: "char \<Rightarrow> bool" where
  "is_ws c = (c = CHR '' '' \<or> c = CHR 0x09 \<or> c = CHR 0x0A \<or> c = CHR 0x0D)"

definition is_digit :: "char \<Rightarrow> bool" where
  "is_digit c = (c \<in> set ''0123456789'')"

definition is_hex :: "char \<Rightarrow> bool" where
  "is_hex c = (c \<in> set ''0123456789abcdefABCDEF'')"

definition is_numchar :: "char \<Rightarrow> bool" where
  "is_numchar c = (c \<in> set ''+-.0123456789eE'')"

definition is_letter :: "char \<Rightarrow> bool" where
  "is_letter c = (c \<in> set ''abcdefghijklmnopqrstuvwxyzABCDEFGHIJKLMNOPQRSTUVWXYZ'')"

text \<open>
  A numeral: an optional minus, \<open>0\<close> or a digit string without a leading zero, an optional
  fraction, an optional exponent.
\<close>

definition exponent_ok :: "string \<Rightarrow> bool" where
  "exponent_ok s =
     (case s of
        [] \<Rightarrow> True
      | c # r \<Rightarrow>
          (c = CHR ''e'' \<or> c = CHR ''E'') \<and>
          (case (case r of [] \<Rightarrow> [] | x # r' \<Rightarrow> if x = CHR ''+'' \<or> x = CHR ''-'' then r' else r) of
             [] \<Rightarrow> False
           | d # r2 \<Rightarrow> is_digit d \<and> dropWhile is_digit r2 = []))"

definition fraction_ok :: "string \<Rightarrow> bool" where
  "fraction_ok s =
     (case s of
        [] \<Rightarrow> True
      | c # r \<Rightarrow>
          if c = CHR ''.'' then
            (case r of [] \<Rightarrow> False | d # r' \<Rightarrow> is_digit d \<and> exponent_ok (dropWhile is_digit r'))
          else exponent_ok s)"

definition valid_number :: "string \<Rightarrow> bool" where
  "valid_number s =
     (case (case s of [] \<Rightarrow> [] | c # r \<Rightarrow> if c = CHR ''-'' then r else s) of
        [] \<Rightarrow> False
      | d # r \<Rightarrow>
          if d = CHR ''0'' then fraction_ok r
          else is_digit d \<and> fraction_ok (dropWhile is_digit r))"

text \<open>
  The characters of a string literal after its opening quote, up to the closing one
  (\<open>CHR 0x22\<close>); a backslash (\<open>CHR 0x5C\<close>) starts an escape; a control character is
  refused.
\<close>

fun string_body :: "string \<Rightarrow> string option" where
  "string_body [] = None"
| "string_body (c # cs) =
     (if c = CHR 0x22 then Some []
      else if c = CHR 0x5C then
        (case cs of
           [] \<Rightarrow> None
         | e # cs1 \<Rightarrow>
             if e \<in> set [CHR 0x22, CHR 0x5C, CHR ''/'', CHR ''b'', CHR ''f'', CHR ''n'', CHR ''r'', CHR ''t'']
             then map_option (\<lambda>b. c # e # b) (string_body cs1)
             else if e = CHR ''u'' then
               (case cs1 of
                  h1 # h2 # h3 # h4 # cs2 \<Rightarrow>
                    if is_hex h1 \<and> is_hex h2 \<and> is_hex h3 \<and> is_hex h4
                    then map_option (\<lambda>b. c # e # h1 # h2 # h3 # h4 # b) (string_body cs2)
                    else None
                | _ \<Rightarrow> None)
             else None)
      else if (of_char c :: nat) < 0x20 then None
      else map_option ((#) c) (string_body cs))"

datatype token = LBracket | RBracket | LBrace | RBrace | Comma | Colon | Scalar jsval

definition literal :: "string \<Rightarrow> jsval option" where
  "literal w =
     (if w = ''null'' then Some JNull
      else if w = ''true'' then Some (JBool True)
      else if w = ''false'' then Some (JBool False)
      else None)"

definition punctuation :: "char \<Rightarrow> token option" where
  "punctuation c =
     (if c = CHR ''['' then Some LBracket
      else if c = CHR '']'' then Some RBracket
      else if c = CHR ''{'' then Some LBrace
      else if c = CHR ''}'' then Some RBrace
      else if c = CHR '','' then Some Comma
      else if c = CHR '':'' then Some Colon
      else None)"

fun tokenize :: "string \<Rightarrow> token list option" where
  "tokenize [] = Some []"
| "tokenize (c # cs) =
     (if is_ws c then tokenize cs
      else if punctuation c \<noteq> None then map_option ((#) (the (punctuation c))) (tokenize cs)
      else if c = CHR 0x22 then
        (case string_body cs of
           None \<Rightarrow> None
         | Some body \<Rightarrow>
             map_option ((#) (Scalar (JStr body))) (tokenize (drop (Suc (length body)) cs)))
      else if is_numchar c then
        (if valid_number (c # takeWhile is_numchar cs)
         then map_option ((#) (Scalar (JNum (c # takeWhile is_numchar cs))))
                (tokenize (drop (length (takeWhile is_numchar cs)) cs))
         else None)
      else if is_letter c then
        (case literal (c # takeWhile is_letter cs) of
           None \<Rightarrow> None
         | Some v \<Rightarrow> map_option ((#) (Scalar v)) (tokenize (drop (length (takeWhile is_letter cs)) cs)))
      else None)"

text \<open>
  The parser: the tokens are read one by one, with the open arrays and objects on a
  stack. An object keeps its members as written, in order.
\<close>

datatype frame =
    Arr "jsval list"
  | Obj "(string \<times> jsval) list"
  | Member "(string \<times> jsval) list" string

datatype mode =
    Want_value
  | Want_value_or_close
  | Want_key_or_close
  | Want_key
  | Want_colon
  | Want_comma_or_close
  | Done jsval

fun reduce :: "jsval \<Rightarrow> frame list \<Rightarrow> (mode \<times> frame list) option" where
  "reduce v [] = Some (Done v, [])"
| "reduce v (Arr es # st) = Some (Want_comma_or_close, Arr (v # es) # st)"
| "reduce v (Member ms k # st) = Some (Want_comma_or_close, Obj ((k, v) # ms) # st)"
| "reduce v (Obj ms # st) = None"

fun open_value :: "token \<Rightarrow> frame list \<Rightarrow> (mode \<times> frame list) option" where
  "open_value (Scalar v) st = reduce v st"
| "open_value LBracket st = Some (Want_value_or_close, Arr [] # st)"
| "open_value LBrace st = Some (Want_key_or_close, Obj [] # st)"
| "open_value _ st = None"

fun read_key :: "token \<Rightarrow> frame list \<Rightarrow> (mode \<times> frame list) option" where
  "read_key (Scalar (JStr k)) (Obj ms # st) = Some (Want_colon, Member ms k # st)"
| "read_key _ _ = None"

fun step :: "mode \<times> frame list \<Rightarrow> token \<Rightarrow> (mode \<times> frame list) option" where
  "step (Want_value, st) t = open_value t st"
| "step (Want_value_or_close, st) t =
     (case (t, st) of
        (RBracket, Arr es # st') \<Rightarrow> reduce (JArr (rev es)) st'
      | _ \<Rightarrow> open_value t st)"
| "step (Want_key_or_close, st) t =
     (case (t, st) of
        (RBrace, Obj ms # st') \<Rightarrow> reduce (JObj (rev ms)) st'
      | _ \<Rightarrow> read_key t st)"
| "step (Want_key, st) t = read_key t st"
| "step (Want_colon, st) t = (case t of Colon \<Rightarrow> Some (Want_value, st) | _ \<Rightarrow> None)"
| "step (Want_comma_or_close, st) t =
     (case (t, st) of
        (Comma, Arr es # st') \<Rightarrow> Some (Want_value, st)
      | (Comma, Obj ms # st') \<Rightarrow> Some (Want_key, st)
      | (RBracket, Arr es # st') \<Rightarrow> reduce (JArr (rev es)) st'
      | (RBrace, Obj ms # st') \<Rightarrow> reduce (JObj (rev ms)) st'
      | _ \<Rightarrow> None)"
| "step (Done v, st) t = None"

fun steps :: "mode \<times> frame list \<Rightarrow> token list \<Rightarrow> (mode \<times> frame list) option" where
  "steps s [] = Some s"
| "steps s (t # ts) = (case step s t of None \<Rightarrow> None | Some s' \<Rightarrow> steps s' ts)"

definition json_parse :: "string \<Rightarrow> jsval option" where
  "json_parse txt =
     (case tokenize txt of
        None \<Rightarrow> None
      | Some ts \<Rightarrow>
          (case steps (Want_value, []) ts of
             Some (Done v, []) \<Rightarrow> Some v
           | _ \<Rightarrow> None))"

definition builtin_JSON_parse :: "string \<Rightarrow> js_error + jsval" where
  "builtin_JSON_parse txt = (case json_parse txt of None \<Rightarrow> Inl SyntaxError | Some v \<Rightarrow> Inr v)"

subsection \<open>Three libraries and three pages\<close>

text \<open>A library that records what it is given and returns.\<close>

definition recording_host :: host where
  "recording_host =
     \<lparr> JSON_parse = builtin_JSON_parse,
       Calendar_constructor = (\<lambda>mount cfg. None),
       Calendar_render = (\<lambda>cal. None) \<rparr>"

text \<open>A library whose \<^verbatim>\<open>render\<close> throws when the calendar has no mount element.\<close>

definition strict_host :: host where
  "strict_host =
     \<lparr> JSON_parse = builtin_JSON_parse,
       Calendar_constructor = (\<lambda>mount cfg. None),
       Calendar_render = (\<lambda>cal. if el cal = None then Some TypeError else None) \<rparr>"

text \<open>A library whose constructor throws when it is given no mount element.\<close>

definition rejecting_host :: host where
  "rejecting_host =
     \<lparr> JSON_parse = builtin_JSON_parse,
       Calendar_constructor = (\<lambda>mount cfg. if mount = None then Some TypeError else None),
       Calendar_render = (\<lambda>cal. None) \<rparr>"

definition mount_div :: element where
  "mount_div = \<lparr> textContent = [] \<rparr>"

definition page :: "string \<Rightarrow> document" where
  "page txt = [''calendar'' \<mapsto> mount_div, ''events-data'' \<mapsto> \<lparr> textContent = txt \<rparr>]"

definition page_without_data :: document where
  "page_without_data = [''calendar'' \<mapsto> mount_div]"

definition page_without_mount :: "string \<Rightarrow> document" where
  "page_without_mount txt = [''events-data'' \<mapsto> \<lparr> textContent = txt \<rparr>]"

text \<open>A data container's text with two events.\<close>

definition two_events :: string where
  \<open>two_events = ''[{"title":"Cours","start":"2024-01-08T08:00:00","end":"2024-01-08T10:00:00"}, {"title":"TP","start":"2024-01-09T14:00:00"}]''\<close>

section \<open>How a run goes\<close>

lemmas json_eval =
  json_parse_def builtin_JSON_parse_def is_ws_def is_digit_def is_hex_def is_numchar_def
  is_letter_def exponent_ok_def fraction_ok_def valid_number_def literal_def punctuation_def

lemmas page_eval =
  page_def page_without_data_def page_without_mount_def mount_div_def getElementById_def
  recording_host_def strict_host_def

lemma load_events_parsed:
  "JSON_parse h (textContent d) = Inr v \<Longrightarrow>
     load_events h d s = (Inr v, s @ [Console_log [Str msg_loaded, Val v]])"
  by (simp add: load_events_def try_catch_def seq_def call_JSON_parse_def return_js_def
        console_log_def emit_def)

lemma load_events_failed:
  "JSON_parse h (textContent d) = Inl e \<Longrightarrow>
     load_events h d s = (Inr (JArr []), s @ [Console_error [Str msg_parse_error, Err e]])"
  by (simp add: load_events_def try_catch_def seq_def call_JSON_parse_def throw_def
        return_js_def console_error_def emit_def)

lemma run_absent:
  "getElementById doc ''events-data'' = None \<Longrightarrow>
     run h doc = (Inr (), [Console_error [Str msg_missing]])"
  by (simp add: run_def handler_def console_error_def emit_def)

lemma run_present:
  assumes "getElementById doc ''events-data'' = Some d"
    and "load_events h d [] = (Inr v, tr)"
  shows "run h doc =
    (case Calendar_constructor h (getElementById doc ''calendar'') (calendar_options v) of
       Some x \<Rightarrow> (Inl x, tr @ [New_Calendar (getElementById doc ''calendar'') (calendar_options v)])
     | None \<Rightarrow>
         (case Calendar_render h \<lparr>el = getElementById doc ''calendar'', opts = calendar_options v\<rparr> of
            Some x \<Rightarrow> Inl x
          | None \<Rightarrow> Inr (),
          tr @ [New_Calendar (getElementById doc ''calendar'') (calendar_options v),
                Render \<lparr>el = getElementById doc ''calendar'', opts = calendar_options v\<rparr>]))"
  using assms
  by (simp add: run_def handler_def Let_def seq_def new_Calendar_def render_def emit_def
        throw_def return_js_def split: option.splits)

lemma constructed_append: "constructed (xs @ ys) = constructed xs @ constructed ys"
  by (induction xs rule: constructed.induct) simp_all

lemma rendered_append: "rendered (xs @ ys) = rendered xs @ rendered ys"
  by (induction xs rule: rendered.induct) simp_all

lemma console_append: "console (xs @ ys) = console xs @ console ys"
  by (induction xs rule: console.induct) simp_all

lemma diagnostics_append: "diagnostics (xs @ ys) = diagnostics xs @ diagnostics ys"
  by (induction xs rule: diagnostics.induct) simp_all

text \<open>The value of \<^verbatim>\<open>events\<close> after lines 11 to 17, and what these lines wrote.\<close>

lemma load_events_cases:
  "load_events h d [] =
     (case JSON_parse h (textContent d) of
        Inl e \<Rightarrow> (Inr (JArr []), [Console_error [Str msg_parse_error, Err e]])
      | Inr v \<Rightarrow> (Inr v, [Console_log [Str msg_loaded, Val v]]))"
  by (cases "JSON_parse h (textContent d)")
     (simp_all add: load_events_parsed load_events_failed)

lemma trace_parsed:
  assumes "getElementById doc ''events-data'' = Some d"
    and "JSON_parse h (textContent d) = Inr v"
  shows "trace h doc =
    Console_log [Str msg_loaded, Val v] #
    New_Calendar (getElementById doc ''calendar'') (calendar_options v) #
    (case Calendar_constructor h (getElementById doc ''calendar'') (calendar_options v) of
       Some x \<Rightarrow> []
     | None \<Rightarrow> [Render \<lparr>el = getElementById doc ''calendar'', opts = calendar_options v\<rparr>])"
  using run_present [OF assms(1), of h v "[Console_log [Str msg_loaded, Val v]]"] assms(2)
  by (simp add: trace_def load_events_cases split: option.splits)

lemma trace_failed:
  assumes "getElementById doc ''events-data'' = Some d"
    and "JSON_parse h (textContent d) = Inl e"
  shows "trace h doc =
    Console_error [Str msg_parse_error, Err e] #
    New_Calendar (getElementById doc ''calendar'') (calendar_options (JArr [])) #
    (case Calendar_constructor h (getElementById doc ''calendar'') (calendar_options (JArr [])) of
       Some x \<Rightarrow> []
     | None \<Rightarrow> [Render \<lparr>el = getElementById doc ''calendar'', opts = calendar_options (JArr [])\<rparr>])"
  using run_present [OF assms(1), of h "JArr []" "[Console_error [Str msg_parse_error, Err e]]"] assms(2)
  by (simp add: trace_def load_events_cases split: option.splits)

lemma outcome_present:
  assumes "getElementById doc ''events-data'' = Some d"
    and "load_events h d [] = (Inr v, tr)"
  shows "outcome h doc =
    (case Calendar_constructor h (getElementById doc ''calendar'') (calendar_options v) of
       Some x \<Rightarrow> Inl x
     | None \<Rightarrow>
         (case Calendar_render h \<lparr>el = getElementById doc ''calendar'', opts = calendar_options v\<rparr> of
            Some x \<Rightarrow> Inl x
          | None \<Rightarrow> Inr ()))"
  using run_present [OF assms]
  by (simp add: outcome_def split: option.splits)

lemma trace_absent:
  "getElementById doc ''events-data'' = None \<Longrightarrow> trace h doc = [Console_error [Str msg_missing]]"
  by (simp add: trace_def run_absent)

text \<open>Every options object the handler passes to the constructor is the literal of lines 19 to 38.\<close>

lemma constructed_options:
  assumes "(m, c) \<in> set (constructed (trace h doc))"
  shows "\<exists>v. c = calendar_options v"
proof (cases "getElementById doc ''events-data''")
  case None
  with assms show ?thesis by (simp add: trace_absent)
next
  case (Some d)
  show ?thesis
  proof (cases "JSON_parse h (textContent d)")
    case (Inl e)
    with Some assms show ?thesis
      by (auto simp: trace_failed split: option.splits)
  next
    case (Inr v)
    with Some assms show ?thesis
      by (auto simp: trace_parsed split: option.splits)
  qed
qed

lemma events_calendar_options [simp]: "events (calendar_options v) = v"
  by (simp add: calendar_options_def)

lemma recording_host_simps:
  "JSON_parse recording_host = builtin_JSON_parse"
  "Calendar_constructor recording_host m c = None"
  "Calendar_render recording_host cal = None"
  by (simp_all add: recording_host_def)

lemma strict_host_simps:
  "JSON_parse strict_host = builtin_JSON_parse"
  "Calendar_constructor strict_host m c = None"
  "Calendar_render strict_host cal = (if el cal = None then Some TypeError else None)"
  by (simp_all add: strict_host_def)

lemma rejecting_host_simps:
  "JSON_parse rejecting_host = builtin_JSON_parse"
  "Calendar_constructor rejecting_host m c = (if m = None then Some TypeError else None)"
  "Calendar_render rejecting_host cal = None"
  by (simp_all add: rejecting_host_def)

lemma page_lookup:
  "getElementById (page txt) ''events-data'' = Some \<lparr>textContent = txt\<rparr>"
  "getElementById (page txt) ''calendar'' = Some mount_div"
  "getElementById page_without_data ''events-data'' = None"
  "getElementById page_without_data ''calendar'' = Some mount_div"
  "getElementById (page_without_mount txt) ''events-data'' = Some \<lparr>textContent = txt\<rparr>"
  "getElementById (page_without_mount txt) ''calendar'' = None"
  by (simp_all add: page_eval)

text \<open>\<^verbatim>\<open>JSON.parse\<close> on the texts used below.\<close>

lemma parse_empty_array: "builtin_JSON_parse ''[]'' = Inr (JArr [])"
  by (simp add: json_eval)

lemma parse_not_json: "builtin_JSON_parse ''not-json'' = Inl SyntaxError"
  by (simp add: json_eval)

lemma parse_empty_object: "builtin_JSON_parse ''{}'' = Inr (JObj [])"
  by (simp add: json_eval)

lemma parse_number: "builtin_JSON_parse ''42'' = Inr (JNum ''42'')"
  by (simp add: json_eval)

lemma parse_null: "builtin_JSON_parse ''null'' = Inr JNull"
  by (simp add: json_eval)

lemma parse_two_events:
  "builtin_JSON_parse two_events =
     Inr (JArr [JObj [(''title'', JStr ''Cours''), (''start'', JStr ''2024-01-08T08:00:00''),
                      (''end'', JStr ''2024-01-08T10:00:00'')],
                JObj [(''title'', JStr ''TP''), (''start'', JStr ''2024-01-09T14:00:00'')]])"
  by (simp add: two_events_def json_eval)

text \<open>The run on a page without mount element, with the library that rejects it.\<close>

lemma trace_rejected:
  "trace rejecting_host (page_without_mount ''[]'') =
     [Console_log [Str msg_loaded, Val (JArr [])], New_Calendar None (calendar_options (JArr []))]"
  using trace_parsed [where h = rejecting_host and doc = "page_without_mount ''[]''"
      and d = "\<lparr>textContent = ''[]''\<rparr>" and v = "JArr []"]
  by (simp add: page_lookup rejecting_host_simps parse_empty_array)

section \<open>The claims\<close>

subsection \<open>C1: no data container\<close>

text \<open>
  C1. When the page has no element with identifier \<^verbatim>\<open>events-data\<close>, the handler writes
  one diagnostic with \<^verbatim>\<open>console.error\<close> and returns: the whole run is that one effect,
  so the constructor of the calendar is not called and \<^verbatim>\<open>render\<close> is not called, and
  the handler returns normally (no exception leaves it).
\<close>

theorem missing_container_aborts:
  assumes "getElementById doc ''events-data'' = None"
  shows "trace h doc = [Console_error [Str msg_missing]]
       \<and> constructed (trace h doc) = []
       \<and> rendered (trace h doc) = []
       \<and> outcome h doc = Inr ()"
  using assms by (simp add: trace_absent outcome_def run_absent)

theorem missing_container_aborts_witness:
  "getElementById page_without_data ''events-data'' = None
   \<and> trace recording_host page_without_data = [Console_error [Str msg_missing]]
   \<and> constructed (trace recording_host page_without_data) = []
   \<and> rendered (trace recording_host page_without_data) = []
   \<and> outcome recording_host page_without_data = Inr ()"
  using missing_container_aborts [where doc = page_without_data and h = recording_host]
  by (simp add: page_eval)

subsection \<open>C2: text that is not JSON\<close>

text \<open>
  C2. When the data container is there and \<^verbatim>\<open>JSON.parse\<close> throws \<open>e\<close> on its text, the
  handler catches \<open>e\<close>: all it writes to the console is one \<^verbatim>\<open>console.error\<close> that
  carries \<open>e\<close>, and it calls the constructor once, with the mount element and the fixed
  options whose \<open>events\<close> is the empty array. When the constructor returns, \<^verbatim>\<open>render\<close>
  is called on that calendar; when \<^verbatim>\<open>render\<close> returns too, the handler returns
  normally.
\<close>

theorem malformed_json_renders_empty_calendar:
  assumes "getElementById doc ''events-data'' = Some d"
    and "JSON_parse h (textContent d) = Inl e"
  shows "console (trace h doc) = [Console_error [Str msg_parse_error, Err e]]
       \<and> constructed (trace h doc) = [(getElementById doc ''calendar'', calendar_options (JArr []))]
       \<and> map (events \<circ> snd) (constructed (trace h doc)) = [JArr []]
       \<and> (Calendar_constructor h (getElementById doc ''calendar'') (calendar_options (JArr [])) = None \<longrightarrow>
            rendered (trace h doc) =
              [\<lparr>el = getElementById doc ''calendar'', opts = calendar_options (JArr [])\<rparr>])
       \<and> (Calendar_constructor h (getElementById doc ''calendar'') (calendar_options (JArr [])) = None \<and>
          Calendar_render h \<lparr>el = getElementById doc ''calendar'', opts = calendar_options (JArr [])\<rparr> = None \<longrightarrow>
            outcome h doc = Inr ())"
proof -
  have out: "load_events h d [] = (Inr (JArr []), [Console_error [Str msg_parse_error, Err e]])"
    using assms(2) by (simp add: load_events_failed)
  show ?thesis
    using trace_failed [OF assms] outcome_present [OF assms(1) out]
    by (simp split: option.splits)
qed

theorem malformed_json_renders_empty_calendar_witness:
  "getElementById (page ''not-json'') ''events-data'' = Some \<lparr>textContent = ''not-json''\<rparr>
   \<and> JSON_parse recording_host ''not-json'' = Inl SyntaxError
   \<and> console (trace recording_host (page ''not-json'')) =
       [Console_error [Str msg_parse_error, Err SyntaxError]]
   \<and> constructed (trace recording_host (page ''not-json'')) =
       [(Some mount_div, calendar_options (JArr []))]
   \<and> map (events \<circ> snd) (constructed (trace recording_host (page ''not-json''))) = [JArr []]
   \<and> rendered (trace recording_host (page ''not-json'')) =
       [\<lparr>el = Some mount_div, opts = calendar_options (JArr [])\<rparr>]
   \<and> outcome recording_host (page ''not-json'') = Inr ()"
proof -
  have p: "getElementById (page ''not-json'') ''events-data'' = Some \<lparr>textContent = ''not-json''\<rparr>"
    by (simp add: page_eval)
  have m: "getElementById (page ''not-json'') ''calendar'' = Some mount_div"
    by (simp add: page_eval)
  have j: "JSON_parse recording_host (textContent \<lparr>textContent = ''not-json''\<rparr>) = Inl SyntaxError"
    by (simp add: recording_host_simps json_eval)
  show ?thesis
    using malformed_json_renders_empty_calendar [OF p j] p j m
    by (simp add: recording_host_simps)
qed

subsection \<open>C3: a JSON array\<close>

text \<open>
  C3. When the data container is there and \<^verbatim>\<open>JSON.parse\<close> returns the array \<open>evs\<close> for
  its text, the constructor is called once, and the \<open>events\<close> of the options it gets is
  that array itself: the same elements, in the same order, each as it was parsed.
\<close>

theorem parsed_array_is_data_source:
  assumes "getElementById doc ''events-data'' = Some d"
    and "JSON_parse h (textContent d) = Inr (JArr evs)"
  shows "constructed (trace h doc) = [(getElementById doc ''calendar'', calendar_options (JArr evs))]
       \<and> map (events \<circ> snd) (constructed (trace h doc)) = [JArr evs]"
  using trace_parsed [OF assms]
  by (simp split: option.splits)

theorem parsed_array_is_data_source_witness:
  "getElementById (page two_events) ''events-data'' = Some \<lparr>textContent = two_events\<rparr>
   \<and> JSON_parse recording_host two_events =
       Inr (JArr [JObj [(''title'', JStr ''Cours''), (''start'', JStr ''2024-01-08T08:00:00''),
                        (''end'', JStr ''2024-01-08T10:00:00'')],
                  JObj [(''title'', JStr ''TP''), (''start'', JStr ''2024-01-09T14:00:00'')]])
   \<and> map (events \<circ> snd) (constructed (trace recording_host (page two_events))) =
       [JArr [JObj [(''title'', JStr ''Cours''), (''start'', JStr ''2024-01-08T08:00:00''),
                    (''end'', JStr ''2024-01-08T10:00:00'')],
              JObj [(''title'', JStr ''TP''), (''start'', JStr ''2024-01-09T14:00:00'')]]]"
proof -
  have p: "getElementById (page two_events) ''events-data'' = Some \<lparr>textContent = two_events\<rparr>"
    by (simp add: page_lookup)
  have j: "JSON_parse recording_host (textContent \<lparr>textContent = two_events\<rparr>) =
       Inr (JArr [JObj [(''title'', JStr ''Cours''), (''start'', JStr ''2024-01-08T08:00:00''),
                        (''end'', JStr ''2024-01-08T10:00:00'')],
                  JObj [(''title'', JStr ''TP''), (''start'', JStr ''2024-01-09T14:00:00'')]])"
    by (simp add: recording_host_simps parse_two_events)
  show ?thesis
    using parsed_array_is_data_source [OF p j] p j
    by simp
qed

subsection \<open>C4: the options do not depend on the input\<close>

text \<open>
  C4. Take two runs, on any two hosts and any two pages, and an options object passed to
  the constructor in each. The two objects agree on every field but \<open>events\<close> (replacing
  the \<open>events\<close> of the first by that of the second gives the second), and the locale is
  \<^verbatim>\<open>fr\<close>, the slots run from 07:00:00 to 20:00:00, and there is no all-day slot.
\<close>

theorem configuration_independent_of_input:
  assumes "(m1, c1) \<in> set (constructed (trace h1 doc1))"
    and "(m2, c2) \<in> set (constructed (trace h2 doc2))"
  shows "c1\<lparr>events := events c2\<rparr> = c2
       \<and> initialView c1 = initialView c2
       \<and> headerToolbar c1 = headerToolbar c2
       \<and> eventDisplay c1 = eventDisplay c2
       \<and> eventTimeFormat c1 = eventTimeFormat c2
       \<and> locale' c1 = locale' c2
       \<and> height c1 = height c2
       \<and> allDaySlot c1 = allDaySlot c2
       \<and> slotMinTime c1 = slotMinTime c2
       \<and> slotMaxTime c1 = slotMaxTime c2
       \<and> locale' c1 = ''fr''
       \<and> slotMinTime c1 = ''07:00:00''
       \<and> slotMaxTime c1 = ''20:00:00''
       \<and> allDaySlot c1 = False"
proof -
  from constructed_options [OF assms(1)] obtain v1 where c1: "c1 = calendar_options v1" ..
  from constructed_options [OF assms(2)] obtain v2 where c2: "c2 = calendar_options v2" ..
  show ?thesis
    by (simp add: c1 c2 calendar_options_def)
qed

theorem configuration_independent_of_input_witness:
  "(Some mount_div, calendar_options (JArr [])) \<in> set (constructed (trace recording_host (page ''not-json'')))
   \<and> (None, calendar_options (JNum ''42'')) \<in> set (constructed (trace strict_host (page_without_mount ''42'')))
   \<and> (calendar_options (JArr []))\<lparr>events := JNum ''42''\<rparr> = calendar_options (JNum ''42'')
   \<and> locale' (calendar_options (JArr [])) = ''fr''
   \<and> slotMinTime (calendar_options (JArr [])) = ''07:00:00''
   \<and> slotMaxTime (calendar_options (JArr [])) = ''20:00:00''
   \<and> allDaySlot (calendar_options (JArr [])) = False"
proof -
  have a: "(Some mount_div, calendar_options (JArr []))
      \<in> set (constructed (trace recording_host (page ''not-json'')))"
    using trace_failed [where h = recording_host and doc = "page ''not-json''"
        and d = "\<lparr>textContent = ''not-json''\<rparr>" and e = SyntaxError]
    by (simp add: page_lookup recording_host_simps parse_not_json)
  have b: "(None, calendar_options (JNum ''42''))
      \<in> set (constructed (trace strict_host (page_without_mount ''42'')))"
    using trace_parsed [where h = strict_host and doc = "page_without_mount ''42''"
        and d = "\<lparr>textContent = ''42''\<rparr>" and v = "JNum ''42''"]
    by (simp add: page_lookup strict_host_simps parse_number)
  show ?thesis
    using configuration_independent_of_input [OF a b] a b
    by (simp add: calendar_options_def)
qed

subsection \<open>C5: the options\<close>

text \<open>
  C5. Every options object the handler passes to the constructor is, but for \<open>events\<close>,
  exactly this: initial view \<^verbatim>\<open>timeGridWeek\<close>; a header toolbar with \<^verbatim>\<open>prev,next today\<close>
  on the left, \<^verbatim>\<open>title\<close> in the center and the four view buttons
  \<^verbatim>\<open>dayGridMonth,timeGridWeek,timeGridDay,listWeek\<close> on the right; event display
  \<^verbatim>\<open>block\<close>; a time format of two-digit hours and minutes on the 24-hour clock; locale
  \<^verbatim>\<open>fr\<close>; height \<^verbatim>\<open>auto\<close>; no all-day slot; slots from 07:00:00 to 20:00:00.
\<close>

theorem constructed_configuration:
  assumes "(m, c) \<in> set (constructed (trace h doc))"
  shows "c = \<lparr> initialView = ''timeGridWeek'',
               headerToolbar =
                 \<lparr> left = ''prev,next today'',
                   center = ''title'',
                   right = ''dayGridMonth,timeGridWeek,timeGridDay,listWeek'' \<rparr>,
               events = events c,
               eventDisplay = ''block'',
               eventTimeFormat = \<lparr> hour = ''2-digit'', minute = ''2-digit'', hour12 = False \<rparr>,
               locale' = ''fr'',
               height = ''auto'',
               allDaySlot = False,
               slotMinTime = ''07:00:00'',
               slotMaxTime = ''20:00:00'' \<rparr>"
proof -
  from constructed_options [OF assms] obtain v where c: "c = calendar_options v" ..
  show ?thesis
    by (simp add: c calendar_options_def)
qed

theorem constructed_configuration_witness:
  "(Some mount_div, calendar_options (JArr [])) \<in> set (constructed (trace recording_host (page ''[]'')))
   \<and> calendar_options (JArr []) =
       \<lparr> initialView = ''timeGridWeek'',
         headerToolbar =
           \<lparr> left = ''prev,next today'',
             center = ''title'',
             right = ''dayGridMonth,timeGridWeek,timeGridDay,listWeek'' \<rparr>,
         events = JArr [],
         eventDisplay = ''block'',
         eventTimeFormat = \<lparr> hour = ''2-digit'', minute = ''2-digit'', hour12 = False \<rparr>,
         locale' = ''fr'',
         height = ''auto'',
         allDaySlot = False,
         slotMinTime = ''07:00:00'',
         slotMaxTime = ''20:00:00'' \<rparr>"
proof -
  have a: "(Some mount_div, calendar_options (JArr []))
      \<in> set (constructed (trace recording_host (page ''[]'')))"
    using trace_parsed [where h = recording_host and doc = "page ''[]''"
        and d = "\<lparr>textContent = ''[]''\<rparr>" and v = "JArr []"]
    by (simp add: page_lookup recording_host_simps parse_empty_array)
  show ?thesis
    using constructed_configuration [OF a] a
    by simp
qed

subsection \<open>C6: one calendar, rendered once\<close>

text \<open>
  C6, as amended. The constructor is called exactly once when the data container is
  there, and not at all when it is not, whatever \<^verbatim>\<open>JSON.parse\<close> does; \<^verbatim>\<open>render\<close> is
  never called more than once, and not at all without the container. One calendar is
  constructed and \<^verbatim>\<open>render\<close> is called once, on that calendar, if and only if the data
  container is there and the one call of the constructor that the run makes returns.
  When that call throws, \<^verbatim>\<open>render\<close> is not called and the exception leaves the handler.
\<close>

theorem render_once_iff_constructed:
  "(length (constructed (trace h doc)) = 1 \<longleftrightarrow> getElementById doc ''events-data'' \<noteq> None)
   \<and> length (rendered (trace h doc)) \<le> 1
   \<and> (getElementById doc ''events-data'' = None \<longrightarrow>
        constructed (trace h doc) = [] \<and> rendered (trace h doc) = [])
   \<and> ((\<exists>m c. constructed (trace h doc) = [(m, c)] \<and> rendered (trace h doc) = [\<lparr>el = m, opts = c\<rparr>])
        \<longleftrightarrow> (getElementById doc ''events-data'' \<noteq> None
             \<and> (\<forall>m c. (m, c) \<in> set (constructed (trace h doc)) \<longrightarrow> Calendar_constructor h m c = None)))
   \<and> (\<forall>m c x. (m, c) \<in> set (constructed (trace h doc)) \<and> Calendar_constructor h m c = Some x \<longrightarrow>
        rendered (trace h doc) = [] \<and> outcome h doc = Inl x)"
proof (cases "getElementById doc ''events-data''")
  case None
  then show ?thesis by (simp add: trace_absent)
next
  case (Some d)
  show ?thesis
  proof (cases "JSON_parse h (textContent d)")
    case (Inl e)
    have out: "load_events h d [] = (Inr (JArr []), [Console_error [Str msg_parse_error, Err e]])"
      using Inl by (simp add: load_events_failed)
    show ?thesis
      using Some trace_failed [OF Some Inl] outcome_present [OF Some out]
      by (auto split: option.splits)
  next
    case (Inr v)
    have out: "load_events h d [] = (Inr v, [Console_log [Str msg_loaded, Val v]])"
      using Inr by (simp add: load_events_parsed)
    show ?thesis
      using Some trace_parsed [OF Some Inr] outcome_present [OF Some out]
      by (auto split: option.splits)
  qed
qed

theorem render_once_iff_constructed_witness:
  "(\<exists>m c. constructed (trace recording_host (page ''[]'')) = [(m, c)]
          \<and> rendered (trace recording_host (page ''[]'')) = [\<lparr>el = m, opts = c\<rparr>])
   \<and> (\<exists>m c. constructed (trace recording_host (page ''not-json'')) = [(m, c)]
          \<and> rendered (trace recording_host (page ''not-json'')) = [\<lparr>el = m, opts = c\<rparr>])
   \<and> constructed (trace recording_host page_without_data) = []
   \<and> rendered (trace recording_host page_without_data) = []
   \<and> (None, calendar_options (JArr []))
        \<in> set (constructed (trace rejecting_host (page_without_mount ''[]'')))
   \<and> Calendar_constructor rejecting_host None (calendar_options (JArr [])) = Some TypeError
   \<and> rendered (trace rejecting_host (page_without_mount ''[]'')) = []
   \<and> outcome rejecting_host (page_without_mount ''[]'') = Inl TypeError"
proof -
  have a: "(None, calendar_options (JArr []))
      \<in> set (constructed (trace rejecting_host (page_without_mount ''[]'')))"
    by (simp add: trace_rejected)
  have b: "Calendar_constructor rejecting_host None (calendar_options (JArr [])) = Some TypeError"
    by (simp add: rejecting_host_simps)
  have r: "rendered (trace rejecting_host (page_without_mount ''[]'')) = []
      \<and> outcome rejecting_host (page_without_mount ''[]'') = Inl TypeError"
    using render_once_iff_constructed [where h = rejecting_host and doc = "page_without_mount ''[]''"] a b
    by blast
  have ok: "(\<exists>m c. constructed (trace recording_host (page ''[]'')) = [(m, c)]
          \<and> rendered (trace recording_host (page ''[]'')) = [\<lparr>el = m, opts = c\<rparr>])
   \<and> (\<exists>m c. constructed (trace recording_host (page ''not-json'')) = [(m, c)]
          \<and> rendered (trace recording_host (page ''not-json'')) = [\<lparr>el = m, opts = c\<rparr>])
   \<and> constructed (trace recording_host page_without_data) = []
   \<and> rendered (trace recording_host page_without_data) = []"
    using render_once_iff_constructed [where h = recording_host and doc = "page ''[]''"]
      render_once_iff_constructed [where h = recording_host and doc = "page ''not-json''"]
      render_once_iff_constructed [where h = recording_host and doc = page_without_data]
    by (simp add: page_lookup recording_host_simps)
  from ok a b r show ?thesis by blast
qed

text \<open>
  C6 as the claim has it (\<^verbatim>\<open>render\<close> is called once whenever the data container is
  there) fails on the page that has the data container, with text \<^verbatim>\<open>[]\<close>, and no mount
  element, with a library whose constructor throws on a null mount: the container is
  there, the constructor is called once, it throws, and line 40 is not reached.
\<close>

theorem render_whenever_container_counterexample:
  "getElementById (page_without_mount ''[]'') ''events-data'' \<noteq> None
   \<and> length (constructed (trace rejecting_host (page_without_mount ''[]''))) = 1
   \<and> rendered (trace rejecting_host (page_without_mount ''[]'')) = []
   \<and> length (rendered (trace rejecting_host (page_without_mount ''[]''))) \<noteq> 1
   \<and> outcome rejecting_host (page_without_mount ''[]'') = Inl TypeError"
proof -
  have out: "load_events rejecting_host \<lparr>textContent = ''[]''\<rparr> [] =
      (Inr (JArr []), [Console_log [Str msg_loaded, Val (JArr [])]])"
    by (simp add: load_events_parsed rejecting_host_simps parse_empty_array)
  show ?thesis
    using outcome_present [where h = rejecting_host and doc = "page_without_mount ''[]''"
        and d = "\<lparr>textContent = ''[]''\<rparr>", OF _ out]
    by (simp add: trace_rejected page_lookup rejecting_host_simps)
qed

subsection \<open>C7: what is written to the console\<close>

text \<open>
  C7, as amended. The console output of a run is one entry, decided by the path taken:
  without the data container, the \<^verbatim>\<open>console.error\<close> of the missing container; when
  \<^verbatim>\<open>JSON.parse\<close> throws \<open>e\<close>, the \<^verbatim>\<open>console.error\<close> that carries \<open>e\<close>; when
  \<^verbatim>\<open>JSON.parse\<close> returns \<open>v\<close>, the \<^verbatim>\<open>console.log\<close> of line 14, which carries \<open>v\<close>. So
  \<^verbatim>\<open>console.error\<close> is written on the two failure paths only, and the run that parses
  its data writes one \<^verbatim>\<open>console.log\<close> entry and no \<^verbatim>\<open>console.error\<close>.
\<close>

theorem console_output_by_path:
  "(getElementById doc ''events-data'' = None \<longrightarrow>
      console (trace h doc) = [Console_error [Str msg_missing]])
   \<and> (\<forall>d e. getElementById doc ''events-data'' = Some d \<and> JSON_parse h (textContent d) = Inl e \<longrightarrow>
      console (trace h doc) = [Console_error [Str msg_parse_error, Err e]])
   \<and> (\<forall>d v. getElementById doc ''events-data'' = Some d \<and> JSON_parse h (textContent d) = Inr v \<longrightarrow>
      console (trace h doc) = [Console_log [Str msg_loaded, Val v]] \<and> diagnostics (trace h doc) = [])"
proof (intro conjI allI impI)
  assume "getElementById doc ''events-data'' = None"
  then show "console (trace h doc) = [Console_error [Str msg_missing]]"
    by (simp add: trace_absent)
next
  fix d e
  assume "getElementById doc ''events-data'' = Some d \<and> JSON_parse h (textContent d) = Inl e"
  then show "console (trace h doc) = [Console_error [Str msg_parse_error, Err e]]"
    by (simp add: trace_failed split: option.splits)
next
  fix d v
  assume a: "getElementById doc ''events-data'' = Some d \<and> JSON_parse h (textContent d) = Inr v"
  then show "console (trace h doc) = [Console_log [Str msg_loaded, Val v]]"
    by (simp add: trace_parsed split: option.splits)
  from a show "diagnostics (trace h doc) = []"
    by (simp add: trace_parsed split: option.splits)
qed

theorem console_output_by_path_witness:
  "console (trace recording_host page_without_data) = [Console_error [Str msg_missing]]
   \<and> console (trace recording_host (page ''not-json'')) =
       [Console_error [Str msg_parse_error, Err SyntaxError]]
   \<and> console (trace recording_host (page ''[]'')) = [Console_log [Str msg_loaded, Val (JArr [])]]
   \<and> diagnostics (trace recording_host (page ''[]'')) = []"
  using console_output_by_path [where h = recording_host and doc = page_without_data]
    console_output_by_path [where h = recording_host and doc = "page ''not-json''"]
    console_output_by_path [where h = recording_host and doc = "page ''[]''"]
  by (simp add: page_lookup recording_host_simps parse_not_json parse_empty_array)

text \<open>
  C7 as the claim has it (nothing is written to the console when the container is there
  and its text parses) fails on the page whose data container holds \<^verbatim>\<open>[]\<close>: the
  container is there, \<^verbatim>\<open>JSON.parse\<close> returns the empty array, and the console gets the
  \<^verbatim>\<open>console.log\<close> of line 14.
\<close>

theorem console_silent_on_success_counterexample:
  "getElementById (page ''[]'') ''events-data'' \<noteq> None
   \<and> JSON_parse recording_host (textContent \<lparr>textContent = ''[]''\<rparr>) = Inr (JArr [])
   \<and> console (trace recording_host (page ''[]'')) = [Console_log [Str msg_loaded, Val (JArr [])]]
   \<and> console (trace recording_host (page ''[]'')) \<noteq> []"
  using trace_parsed [where h = recording_host and doc = "page ''[]''"
      and d = "\<lparr>textContent = ''[]''\<rparr>" and v = "JArr []"]
  by (simp add: page_lookup recording_host_simps parse_empty_array)

subsection \<open>C8: no mount element\<close>

text \<open>
  C8. When the data container is there and the page has no element with identifier
  \<^verbatim>\<open>calendar\<close>, the handler does not abort: it writes to the console what lines 11 to 17
  write and nothing else (in particular not the diagnostic of the abort), and calls the
  constructor once, with the null mount element and the options of the loaded events.
  What happens then is the library's doing: an exception of the constructor leaves the
  handler with \<^verbatim>\<open>render\<close> not called; otherwise \<^verbatim>\<open>render\<close> is called on the calendar
  without a mount, and an exception of \<^verbatim>\<open>render\<close> leaves the handler.
\<close>

theorem missing_mount_is_not_checked:
  assumes "getElementById doc ''events-data'' = Some d"
    and "getElementById doc ''calendar'' = None"
  shows "\<exists>evts.
           fst (load_events h d []) = Inr evts
         \<and> constructed (trace h doc) = [(None, calendar_options evts)]
         \<and> console (trace h doc) = snd (load_events h d [])
         \<and> [Str msg_missing] \<notin> set (diagnostics (trace h doc))
         \<and> (\<forall>x. Calendar_constructor h None (calendar_options evts) = Some x \<longrightarrow>
               rendered (trace h doc) = [] \<and> outcome h doc = Inl x)
         \<and> (Calendar_constructor h None (calendar_options evts) = None \<longrightarrow>
               rendered (trace h doc) = [\<lparr>el = None, opts = calendar_options evts\<rparr>]
             \<and> outcome h doc =
                 (case Calendar_render h \<lparr>el = None, opts = calendar_options evts\<rparr> of
                    Some x \<Rightarrow> Inl x | None \<Rightarrow> Inr ()))"
proof (cases "JSON_parse h (textContent d)")
  case (Inl e)
  have out: "load_events h d [] = (Inr (JArr []), [Console_error [Str msg_parse_error, Err e]])"
    using Inl by (simp add: load_events_failed)
  have ne: "msg_parse_error \<noteq> msg_missing"
    by (simp add: msg_parse_error_def msg_missing_def)
  show ?thesis
    using trace_failed [OF assms(1) Inl] outcome_present [OF assms(1) out] assms(2) out ne
    by (auto split: option.splits)
next
  case (Inr v)
  have out: "load_events h d [] = (Inr v, [Console_log [Str msg_loaded, Val v]])"
    using Inr by (simp add: load_events_parsed)
  show ?thesis
    using trace_parsed [OF assms(1) Inr] outcome_present [OF assms(1) out] assms(2) out
    by (auto split: option.splits)
qed

theorem missing_mount_is_not_checked_witness:
  "getElementById (page_without_mount ''[]'') ''events-data'' = Some \<lparr>textContent = ''[]''\<rparr>
   \<and> getElementById (page_without_mount ''[]'') ''calendar'' = None
   \<and> constructed (trace strict_host (page_without_mount ''[]'')) = [(None, calendar_options (JArr []))]
   \<and> console (trace strict_host (page_without_mount ''[]'')) =
       [Console_log [Str msg_loaded, Val (JArr [])]]
   \<and> rendered (trace strict_host (page_without_mount ''[]'')) =
       [\<lparr>el = None, opts = calendar_options (JArr [])\<rparr>]
   \<and> outcome strict_host (page_without_mount ''[]'') = Inl TypeError"
proof -
  have out: "load_events strict_host \<lparr>textContent = ''[]''\<rparr> [] =
      (Inr (JArr []), [Console_log [Str msg_loaded, Val (JArr [])]])"
    by (simp add: load_events_parsed strict_host_simps parse_empty_array)
  show ?thesis
    using missing_mount_is_not_checked [where h = strict_host and doc = "page_without_mount ''[]''"
        and d = "\<lparr>textContent = ''[]''\<rparr>"]
    by (simp add: page_lookup strict_host_simps out)
qed

subsection \<open>C9: JSON that is not an array\<close>

text \<open>
  C9. When the data container is there and \<^verbatim>\<open>JSON.parse\<close> returns a value \<open>v\<close> that is
  not an array, the constructor is called once and the \<open>events\<close> of its options is \<open>v\<close>
  itself, not the empty array; no diagnostic is written (nothing goes to
  \<^verbatim>\<open>console.error\<close>: the console holds the \<^verbatim>\<open>console.log\<close> of line 14, which carries
  \<open>v\<close>, and nothing else).
\<close>

theorem non_array_json_is_passed_through:
  assumes "getElementById doc ''events-data'' = Some d"
    and "JSON_parse h (textContent d) = Inr v"
    and "\<not> is_array v"
  shows "constructed (trace h doc) = [(getElementById doc ''calendar'', calendar_options v)]
       \<and> map (events \<circ> snd) (constructed (trace h doc)) = [v]
       \<and> v \<noteq> JArr []
       \<and> diagnostics (trace h doc) = []
       \<and> console (trace h doc) = [Console_log [Str msg_loaded, Val v]]"
  using trace_parsed [OF assms(1,2)] assms(3)
  by (auto split: option.splits)

theorem non_array_json_is_passed_through_witness:
  "map (events \<circ> snd) (constructed (trace recording_host (page ''{}''))) = [JObj []]
   \<and> diagnostics (trace recording_host (page ''{}'')) = []
   \<and> map (events \<circ> snd) (constructed (trace recording_host (page ''42''))) = [JNum ''42'']
   \<and> diagnostics (trace recording_host (page ''42'')) = []
   \<and> map (events \<circ> snd) (constructed (trace recording_host (page ''null''))) = [JNull]
   \<and> diagnostics (trace recording_host (page ''null'')) = []"
  using non_array_json_is_passed_through [where h = recording_host and doc = "page ''{}''"
        and d = "\<lparr>textContent = ''{}''\<rparr>" and v = "JObj []"]
    non_array_json_is_passed_through [where h = recording_host and doc = "page ''42''"
        and d = "\<lparr>textContent = ''42''\<rparr>" and v = "JNum ''42''"]
    non_array_json_is_passed_through [where h = recording_host and doc = "page ''null''"
        and d = "\<lparr>textContent = ''null''\<rparr>" and v = "JNull"]
  by (simp add: page_lookup recording_host_simps parse_empty_object parse_number parse_null)

subsection \<open>C10: lines 11 to 17 always complete\<close>

text \<open>
  C10. For every host, every data container and every state before, lines 11 to 17
  complete normally: no exception leaves them, the effects so far are kept, and the
  variable \<^verbatim>\<open>events\<close> then holds the value \<^verbatim>\<open>JSON.parse\<close> returned or, when it threw, the
  initial empty array.
\<close>

theorem load_events_total:
  "\<exists>evts tr. load_events h d s = (Inr evts, s @ tr)
     \<and> evts = (case JSON_parse h (textContent d) of Inl e \<Rightarrow> JArr [] | Inr v \<Rightarrow> v)"
  by (cases "JSON_parse h (textContent d)")
     (simp_all add: load_events_parsed load_events_failed)

end
